theory Spec2Isabelle
  imports Complex_Main "HOL-Library.AList"
begin

section \<open>JavaScript values used by the CSV pipeline\<close>

text \<open>
  A JavaScript \<open>number\<close> is \<open>NaN\<close>, an infinity or a finite value. Finite values are
  carried as reals: comparisons are exact, as they are on doubles. Rounding of sums is
  not modelled, and the two zeros are one value. Strings are lists of code units below 256.
\<close>

datatype jsnum = NaN | NegInf | Fin real | PosInf

definition isNaN :: "jsnum \<Rightarrow> bool" where
  "isNaN x = (x = NaN)"

text \<open>\<open>a < b\<close> on numbers: false as soon as one side is \<open>NaN\<close>.\<close>

fun jlt :: "jsnum \<Rightarrow> jsnum \<Rightarrow> bool" where
  "jlt NaN b = False"
| "jlt a NaN = False"
| "jlt NegInf NegInf = False"
| "jlt NegInf b = True"
| "jlt (Fin a) (Fin b) = (a < b)"
| "jlt (Fin a) PosInf = True"
| "jlt (Fin a) NegInf = False"
| "jlt PosInf b = False"

text \<open>\<open>a <= b\<close> on numbers.\<close>

fun jle :: "jsnum \<Rightarrow> jsnum \<Rightarrow> bool" where
  "jle NaN b = False"
| "jle a NaN = False"
| "jle NegInf b = True"
| "jle (Fin a) (Fin b) = (a \<le> b)"
| "jle (Fin a) PosInf = True"
| "jle (Fin a) NegInf = False"
| "jle PosInf PosInf = True"
| "jle PosInf b = False"

text \<open>\<open>a + b\<close> on numbers.\<close>

fun jadd :: "jsnum \<Rightarrow> jsnum \<Rightarrow> jsnum" where
  "jadd NaN b = NaN"
| "jadd a NaN = NaN"
| "jadd (Fin a) (Fin b) = Fin (a + b)"
| "jadd (Fin a) b = b"
| "jadd PosInf NegInf = NaN"
| "jadd NegInf PosInf = NaN"
| "jadd a b = a"

text \<open>\<open>a / n\<close> for an array length \<open>n\<close>.\<close>

fun jdivLength :: "jsnum \<Rightarrow> nat \<Rightarrow> jsnum" where
  "jdivLength NaN n = NaN"
| "jdivLength PosInf n = PosInf"
| "jdivLength NegInf n = NegInf"
| "jdivLength (Fin a) n =
     (if n = 0 then (if a = 0 then NaN else if 0 < a then PosInf else NegInf)
      else Fin (a / real n))"

text \<open>\<open>Math.min\<close> and \<open>Math.max\<close> of two numbers.\<close>

definition jmin :: "jsnum \<Rightarrow> jsnum \<Rightarrow> jsnum" where
  "jmin a b = (if isNaN a \<or> isNaN b then NaN else if jlt b a then b else a)"

definition jmax :: "jsnum \<Rightarrow> jsnum \<Rightarrow> jsnum" where
  "jmax a b = (if isNaN a \<or> isNaN b then NaN else if jlt a b then b else a)"

text \<open>
  The built-ins of the host that the pipeline calls. Their results depend on the
  engine, the locale and the time zone, so every function below takes them as a
  parameter:
  \<^item> \<open>Number\<close> is \<open>Number(value)\<close> on a string;
  \<^item> \<open>numberToString\<close> is the conversion of a number inside a template literal;
  \<^item> \<open>dateIsValid s\<close> is \<open>!isNaN(new Date(s).getTime())\<close>;
  \<^item> \<open>toISOString s\<close> is \<open>new Date(s).toISOString()\<close>, \<open>None\<close> when it throws;
  \<^item> \<open>localFields s\<close> gives \<open>getFullYear\<close>, \<open>getMonth\<close>, \<open>getDate\<close>, \<open>getHours\<close> and
    \<open>getMinutes\<close> of \<open>new Date(s)\<close>, \<open>None\<close> for an invalid date (every getter is \<open>NaN\<close>).
\<close>

record builtins =
  Number :: "string \<Rightarrow> jsnum"
  numberToString :: "jsnum \<Rightarrow> string"
  dateIsValid :: "string \<Rightarrow> bool"
  toISOString :: "string \<Rightarrow> string option"
  localFields :: "string \<Rightarrow> (int \<times> int \<times> int \<times> int \<times> int) option"

subsection \<open>Strings\<close>

definition isDigit :: "char \<Rightarrow> bool" where
  "isDigit c = (c \<in> set ''0123456789'')"

definition isHexDigit :: "char \<Rightarrow> bool" where
  "isHexDigit c = (c \<in> set ''0123456789ABCDEFabcdef'')"

text \<open>White space removed by \<open>String.prototype.trim\<close>, among the code units below 256.\<close>

definition isSpace :: "char \<Rightarrow> bool" where
  "isSpace c = (c \<in> set [CHR 0x09, CHR 0x0A, CHR 0x0B, CHR 0x0C, CHR 0x0D, CHR 0x20, CHR 0xA0])"

definition trim :: "string \<Rightarrow> string" where
  "trim s = rev (dropWhile isSpace (rev (dropWhile isSpace s)))"

fun lowerChar :: "char \<Rightarrow> char" where
  "lowerChar c =
     (case map_of (zip ''ABCDEFGHIJKLMNOPQRSTUVWXYZ'' ''abcdefghijklmnopqrstuvwxyz'') c of
        Some d \<Rightarrow> d | None \<Rightarrow> c)"

fun upperChar :: "char \<Rightarrow> char" where
  "upperChar c =
     (case map_of (zip ''abcdefghijklmnopqrstuvwxyz'' ''ABCDEFGHIJKLMNOPQRSTUVWXYZ'') c of
        Some d \<Rightarrow> d | None \<Rightarrow> c)"

text \<open>Case conversion of the ASCII letters; the strings compared against are ASCII.\<close>

definition toLowerCase :: "string \<Rightarrow> string" where
  "toLowerCase s = map lowerChar s"

definition toUpperCase :: "string \<Rightarrow> string" where
  "toUpperCase s = map upperChar s"

definition digitChar :: "nat \<Rightarrow> char" where
  "digitChar d = ''0123456789'' ! d"

text \<open>The decimal text of a non-negative integer, as a template literal prints it.\<close>

fun showNat :: "nat \<Rightarrow> string" where
  "showNat n =
     (if n < 10 then [digitChar n] else showNat (n div 10) @ [digitChar (n mod 10)])"

declare showNat.simps [simp del]

definition showInt :: "int \<Rightarrow> string" where
  "showInt i = (if i < 0 then CHR ''-'' # showNat (nat (- i)) else showNat (nat i))"

text \<open>\<open>a || b\<close> on strings: the empty string is the only falsy one.\<close>

definition orElse :: "string \<Rightarrow> string \<Rightarrow> string" where
  "orElse a b = (if a = [] then b else a)"

section \<open>Parse errors and the field validators (validation.ts)\<close>

datatype error_type = Validation | Conversion | Missing | Format

text \<open>The string behind each member of the union type of \<open>ParseError.type\<close>.\<close>

fun typeName :: "error_type \<Rightarrow> string" where
  "typeName Validation = ''validation''"
| "typeName Conversion = ''conversion''"
| "typeName Missing = ''missing''"
| "typeName Format = ''format''"

text \<open>\<open>ParseError\<close>; the field \<open>val\<close> is the property \<open>value\<close>.\<close>

record ParseError =
  row :: nat
  field :: string
  val :: string
  message :: string
  type :: error_type

text \<open>\<open>ValidationRules\<close>: the range of each physical quantity.\<close>

definition voltage_min :: jsnum where "voltage_min = Fin 0"
definition voltage_max :: jsnum where "voltage_max = Fin 300"
definition current_min :: jsnum where "current_min = Fin (- 100)"
definition current_max :: jsnum where "current_max = Fin 100"
definition power_min :: jsnum where "power_min = Fin 0"
definition power_max :: jsnum where "power_max = Fin 10000"
definition energy_min :: jsnum where "energy_min = Fin 0"
definition energy_max :: jsnum where "energy_max = Fin 100000"
definition temperature_min :: jsnum where "temperature_min = Fin (- 40)"
definition temperature_max :: jsnum where "temperature_max = Fin 80"
definition soc_min :: jsnum where "soc_min = Fin 0"
definition soc_max :: jsnum where "soc_max = Fin 100"
definition frequency_min :: jsnum where "frequency_min = Fin 45"
definition frequency_max :: jsnum where "frequency_max = Fin 65"

text \<open>
  \<open>validateNumber\<close>. The argument is a string (the callers pass \<open>row.X || ''\<close>), so the
  \<open>null\<close> and \<open>undefined\<close> tests of the first branch never fire.
\<close>

definition validateNumber ::
  "builtins \<Rightarrow> string \<Rightarrow> string \<Rightarrow> jsnum \<Rightarrow> jsnum \<Rightarrow> nat \<Rightarrow> jsnum \<times> ParseError option" where
  "validateNumber B v fieldName mn mx rowIndex =
     (if v = [] \<or> v = ''-'' then (Fin 0, None)
      else let numValue = Number B v in
        if isNaN numValue then
          (Fin 0, Some \<lparr>row = rowIndex, field = fieldName, val = v,
             message = ''Invalid number format: '' @ [CHR 0x22] @ v @ [CHR 0x22],
             type = Conversion\<rparr>)
        else if jlt numValue mn \<or> jlt mx numValue then
          (numValue, Some \<lparr>row = rowIndex, field = fieldName, val = v,
             message = ''Value '' @ numberToString B numValue @ '' is outside valid range [''
               @ numberToString B mn @ '', '' @ numberToString B mx @ '']'',
             type = Validation\<rparr>)
        else (numValue, None))"

definition validateVoltage :: "builtins \<Rightarrow> string \<Rightarrow> string \<Rightarrow> nat \<Rightarrow> jsnum \<times> ParseError option" where
  "validateVoltage B v fieldName rowIndex =
     validateNumber B v fieldName voltage_min voltage_max rowIndex"

definition validateCurrent :: "builtins \<Rightarrow> string \<Rightarrow> string \<Rightarrow> nat \<Rightarrow> jsnum \<times> ParseError option" where
  "validateCurrent B v fieldName rowIndex =
     validateNumber B v fieldName current_min current_max rowIndex"

definition validatePower :: "builtins \<Rightarrow> string \<Rightarrow> string \<Rightarrow> nat \<Rightarrow> jsnum \<times> ParseError option" where
  "validatePower B v fieldName rowIndex =
     validateNumber B v fieldName power_min power_max rowIndex"

definition validateEnergy :: "builtins \<Rightarrow> string \<Rightarrow> string \<Rightarrow> nat \<Rightarrow> jsnum \<times> ParseError option" where
  "validateEnergy B v fieldName rowIndex =
     validateNumber B v fieldName energy_min energy_max rowIndex"

definition validateTemperature :: "builtins \<Rightarrow> string \<Rightarrow> string \<Rightarrow> nat \<Rightarrow> jsnum \<times> ParseError option" where
  "validateTemperature B v fieldName rowIndex =
     validateNumber B v fieldName temperature_min temperature_max rowIndex"

definition validateSOC :: "builtins \<Rightarrow> string \<Rightarrow> string \<Rightarrow> nat \<Rightarrow> jsnum \<times> ParseError option" where
  "validateSOC B v fieldName rowIndex =
     validateNumber B v fieldName soc_min soc_max rowIndex"

definition validateFrequency :: "builtins \<Rightarrow> string \<Rightarrow> string \<Rightarrow> nat \<Rightarrow> jsnum \<times> ParseError option" where
  "validateFrequency B v fieldName rowIndex =
     validateNumber B v fieldName frequency_min frequency_max rowIndex"

text \<open>The pattern \<open>/^\d{4}-\d{2}-\d{2}$/\<close>.\<close>

fun dateRegex :: "string \<Rightarrow> bool" where
  "dateRegex [y1, y2, y3, y4, s1, m1, m2, s2, d1, d2] =
     (list_all isDigit [y1, y2, y3, y4, m1, m2, d1, d2] \<and> s1 = CHR ''-'' \<and> s2 = CHR ''-'')"
| "dateRegex s = False"

definition validateDate :: "builtins \<Rightarrow> string \<Rightarrow> string \<Rightarrow> nat \<Rightarrow> string \<times> ParseError option" where
  "validateDate B v fieldName rowIndex =
     (if v = [] then
        ([], Some \<lparr>row = rowIndex, field = fieldName, val = v,
           message = ''Date is required'', type = Missing\<rparr>)
      else if \<not> dateRegex v then
        (v, Some \<lparr>row = rowIndex, field = fieldName, val = v,
           message = ''Date must be in YYYY-MM-DD format'', type = Format\<rparr>)
      else if \<not> dateIsValid B v then
        (v, Some \<lparr>row = rowIndex, field = fieldName, val = v,
           message = ''Invalid date'', type = Validation\<rparr>)
      else (v, None))"

text \<open>The pattern \<open>/^([01]?[0-9]|2[0-3]):[0-5][0-9]$/\<close>.\<close>

fun timeRegex :: "string \<Rightarrow> bool" where
  "timeRegex [h, c, m1, m2] =
     (isDigit h \<and> c = CHR '':'' \<and> m1 \<in> set ''012345'' \<and> isDigit m2)"
| "timeRegex [h1, h2, c, m1, m2] =
     (((h1 \<in> set ''01'' \<and> isDigit h2) \<or> (h1 = CHR ''2'' \<and> h2 \<in> set ''0123''))
      \<and> c = CHR '':'' \<and> m1 \<in> set ''012345'' \<and> isDigit m2)"
| "timeRegex s = False"

definition validateTime :: "string \<Rightarrow> string \<Rightarrow> nat \<Rightarrow> string \<times> ParseError option" where
  "validateTime v fieldName rowIndex =
     (if v = [] then
        ([], Some \<lparr>row = rowIndex, field = fieldName, val = v,
           message = ''Time is required'', type = Missing\<rparr>)
      else if \<not> timeRegex v then
        (v, Some \<lparr>row = rowIndex, field = fieldName, val = v,
           message = ''Time must be in HH:MM format'', type = Format\<rparr>)
      else (v, None))"

text \<open>\<open>validateBlackout\<close>: \<open>None\<close> is the \<open>null\<close> of the tri-state.\<close>

definition validateBlackout :: "string \<Rightarrow> string \<Rightarrow> nat \<Rightarrow> bool option \<times> ParseError option" where
  "validateBlackout v fieldName rowIndex =
     (if v = [] \<or> v = ''-'' then (None, None)
      else let lowerValue = toLowerCase v in
        if lowerValue = ''true'' \<or> lowerValue = ''1'' \<or> lowerValue = ''yes'' then (Some True, None)
        else if lowerValue = ''false'' \<or> lowerValue = ''0'' \<or> lowerValue = ''no'' then (Some False, None)
        else (None, Some \<lparr>row = rowIndex, field = fieldName, val = v,
                message = ''Invalid blackout status: '' @ [CHR 0x22] @ v @ [CHR 0x22],
                type = Validation\<rparr>))"

text \<open>The pattern \<open>/^0x[0-9A-Fa-f]+$/\<close>.\<close>

fun hexRegex :: "string \<Rightarrow> bool" where
  "hexRegex (z # x # d # ds) = (z = CHR ''0'' \<and> x = CHR ''x'' \<and> list_all isHexDigit (d # ds))"
| "hexRegex s = False"

definition validateHex :: "string \<Rightarrow> string \<Rightarrow> nat \<Rightarrow> string \<times> ParseError option" where
  "validateHex v fieldName rowIndex =
     (if v = [] then (''0x00'', None)
      else if \<not> hexRegex v then
        (v, Some \<lparr>row = rowIndex, field = fieldName, val = v,
           message = ''Invalid hex format: '' @ [CHR 0x22] @ v @ [CHR 0x22],
           type = Format\<rparr>)
      else (v, None))"

section \<open>Records of the data model (types)\<close>

text \<open>
  The interfaces, field by field; numbers are \<open>jsnum\<close>. \<open>id'\<close> is the property \<open>id\<close> of a
  user record.
\<close>

record Timestamp =
  date :: string
  time :: string
  datetime :: "string option"

record UserRecord =
  id' :: string
  name :: string
  timestamp :: Timestamp
  blackout :: "bool option"

record InverterSupply =
  totalKWh :: jsnum

record PVData =
  voltage :: jsnum
  current :: jsnum
  powerW :: jsnum
  dailyWh :: jsnum
  monthlyWd :: jsnum
  yearlyWm :: jsnum
  totalKWh :: jsnum

record BatteryData =
  voltage :: jsnum
  current :: jsnum
  temperature :: jsnum
  soc :: jsnum

record InverterData =
  voltage :: jsnum
  current :: jsnum
  frequency :: jsnum

record GridData =
  voltage :: jsnum
  current :: jsnum
  frequency :: jsnum

record SystemStatus =
  hex :: string

record InverterRecord =
  userRecord :: UserRecord
  inverterSupply :: InverterSupply
  pv :: PVData
  battery :: BatteryData
  inverter :: InverterData
  grid :: GridData
  status :: SystemStatus

record ParseResult =
  data :: "InverterRecord list"
  errors :: "ParseError list"
  totalRows :: nat
  successfulRows :: nat

section \<open>The row assembler and the parse orchestrator\<close>

text \<open>
  A row as the tokenizer hands it over: an object from column names to strings
  (\<open>dynamicTyping\<close> is off). A column the row lacks reads as \<open>undefined\<close>; every read in
  \<open>parseRow\<close> is \<open>row.X || ...\<close>, where \<open>undefined\<close> and the empty string behave alike, so
  \<open>column\<close> gives the empty string for both.
\<close>

type_synonym RawCSVRow = "string \<rightharpoonup> string"

definition column :: "RawCSVRow \<Rightarrow> string \<Rightarrow> string" where
  "column r k = (case r k of Some v \<Rightarrow> v | None \<Rightarrow> [])"

text \<open>\<open>if (x.error) errors.push(x.error)\<close> appends \<open>optList (snd x)\<close>.\<close>

fun optList :: "'a option \<Rightarrow> 'a list" where
  "optList None = []"
| "optList (Some e) = [e]"

text \<open>\<open>CSV_PARSE_CONFIG.transformHeader\<close>: the \<open>switch\<close>, case by case in its order.\<close>

definition transformHeader :: "string \<Rightarrow> string" where
  "transformHeader header =
     (let cleanHeader = trim header in
      if cleanHeader = ''Total kWh'' then ''InvSupply_TotalKWh''
      else if cleanHeader = ''Voltage'' then ''PV_Voltage''
      else if cleanHeader = ''Current'' then ''PV_Current''
      else if cleanHeader = ''Power W'' then ''PV_PowerW''
      else if cleanHeader = ''Daily Wh'' then ''PV_DailyWh''
      else if cleanHeader = ''Monthly Wd'' then ''PV_MonthlyWd''
      else if cleanHeader = ''Yearly Wm'' then ''PV_YearlyWm''
      else if cleanHeader = ''Total kWh'' then ''PV_TotalKWh''
      else cleanHeader)"

definition createTimestamp ::
  "builtins \<Rightarrow> string \<Rightarrow> string \<Rightarrow> nat \<Rightarrow> Timestamp \<times> ParseError list" where
  "createTimestamp B dateStr timeStr rowIndex =
     (let dateValidation = validateDate B dateStr ''Date'' rowIndex;
          timeValidation = validateTime timeStr ''Time'' rowIndex;
          errors = optList (snd dateValidation) @ optList (snd timeValidation);
          made =
            (if snd dateValidation = None \<and> snd timeValidation = None then
               (case toISOString B (fst dateValidation @ ''T'' @ fst timeValidation @ '':00'') of
                  Some isoString \<Rightarrow> (Some isoString, errors)
                | None \<Rightarrow>
                    (None, errors @
                      [\<lparr>row = rowIndex, field = ''datetime'', val = dateStr @ '' '' @ timeStr,
                        message = ''Failed to create valid datetime'', type = Conversion\<rparr>]))
             else (None, errors))
      in (\<lparr>date = fst dateValidation, time = fst timeValidation, datetime = fst made\<rparr>,
          snd made))"

text \<open>The error pushed for a row that has neither an id nor a date.\<close>

definition incompleteRecord :: "nat \<Rightarrow> ParseError" where
  "incompleteRecord rowIndex =
     \<lparr>row = rowIndex, field = ''record'', val = ''incomplete'',
      message = ''Row missing required ID or date information'', type = Validation\<rparr>"

definition parseRow ::
  "builtins \<Rightarrow> RawCSVRow \<Rightarrow> nat \<Rightarrow> InverterRecord option \<times> ParseError list" where
  "parseRow B r rowIndex =
     (let timestampResult =
            createTimestamp B (orElse (column r ''Date'') []) (orElse (column r ''Time'') []) rowIndex;
          errors = snd timestampResult;
          blackoutValidation = validateBlackout (orElse (column r ''Blackout'') []) ''Blackout'' rowIndex;
          errors = errors @ optList (snd blackoutValidation);
          userRecord = \<lparr>id' = orElse (column r ''ID'') [], name = orElse (column r ''Name'') [],
            timestamp = fst timestampResult, blackout = fst blackoutValidation\<rparr>;
          invSupplyValidation = validateEnergy B
            (orElse (orElse (column r ''InvSupply_TotalKWh'') (column r ''Total kWh'')) [])
            ''InvSupply_TotalKWh'' rowIndex;
          errors = errors @ optList (snd invSupplyValidation);
          inverterSupply = \<lparr>InverterSupply.totalKWh = fst invSupplyValidation\<rparr>;
          pvVoltageValidation = validateVoltage B
            (orElse (orElse (column r ''PV_Voltage'') (column r ''Voltage'')) []) ''PV_Voltage'' rowIndex;
          pvCurrentValidation = validateCurrent B
            (orElse (orElse (column r ''PV_Current'') (column r ''Current'')) []) ''PV_Current'' rowIndex;
          pvPowerValidation = validatePower B
            (orElse (orElse (column r ''PV_PowerW'') (column r ''Power W'')) []) ''PV_PowerW'' rowIndex;
          pvDailyWhValidation = validateEnergy B
            (orElse (orElse (column r ''PV_DailyWh'') (column r ''Daily Wh'')) []) ''PV_DailyWh'' rowIndex;
          pvMonthlyWdValidation = validateEnergy B
            (orElse (orElse (column r ''PV_MonthlyWd'') (column r ''Monthly Wd'')) []) ''PV_MonthlyWd'' rowIndex;
          pvYearlyWmValidation = validateEnergy B
            (orElse (orElse (column r ''PV_YearlyWm'') (column r ''Yearly Wm'')) []) ''PV_YearlyWm'' rowIndex;
          pvTotalKWhValidation = validateEnergy B
            (orElse (orElse (column r ''PV_TotalKWh'') (column r ''Total kWh'')) []) ''PV_TotalKWh'' rowIndex;
          errors = errors @ concat (map (\<lambda>validation. optList (snd validation))
            [pvVoltageValidation, pvCurrentValidation, pvPowerValidation, pvDailyWhValidation,
             pvMonthlyWdValidation, pvYearlyWmValidation, pvTotalKWhValidation]);
          pv = \<lparr>PVData.voltage = fst pvVoltageValidation, PVData.current = fst pvCurrentValidation,
            powerW = fst pvPowerValidation, dailyWh = fst pvDailyWhValidation,
            monthlyWd = fst pvMonthlyWdValidation, yearlyWm = fst pvYearlyWmValidation,
            PVData.totalKWh = fst pvTotalKWhValidation\<rparr>;
          batteryVoltageValidation = validateVoltage B (orElse (column r ''Voltage_1'') []) ''Battery_Voltage'' rowIndex;
          batteryCurrentValidation = validateCurrent B (orElse (column r ''Current_1'') []) ''Battery_Current'' rowIndex;
          batteryTempValidation = validateTemperature B (orElse (column r ''Temp'') []) ''Battery_Temp'' rowIndex;
          batterySOCValidation = validateSOC B (orElse (column r ''SOC'') []) ''Battery_SOC'' rowIndex;
          errors = errors @ concat (map (\<lambda>validation. optList (snd validation))
            [batteryVoltageValidation, batteryCurrentValidation, batteryTempValidation,
             batterySOCValidation]);
          battery = \<lparr>BatteryData.voltage = fst batteryVoltageValidation,
            BatteryData.current = fst batteryCurrentValidation,
            temperature = fst batteryTempValidation, soc = fst batterySOCValidation\<rparr>;
          inverterVoltageValidation = validateVoltage B (orElse (column r ''Voltage_2'') []) ''Inverter_Voltage'' rowIndex;
          inverterCurrentValidation = validateCurrent B (orElse (column r ''Current_2'') []) ''Inverter_Current'' rowIndex;
          inverterFreqValidation = validateFrequency B (orElse (column r ''Hz'') []) ''Inverter_Frequency'' rowIndex;
          errors = errors @ concat (map (\<lambda>validation. optList (snd validation))
            [inverterVoltageValidation, inverterCurrentValidation, inverterFreqValidation]);
          inverter = \<lparr>InverterData.voltage = fst inverterVoltageValidation,
            InverterData.current = fst inverterCurrentValidation,
            InverterData.frequency = fst inverterFreqValidation\<rparr>;
          gridVoltageValidation = validateVoltage B (orElse (column r ''Voltage_3'') []) ''Grid_Voltage'' rowIndex;
          gridCurrentValidation = validateCurrent B (orElse (column r ''Current_3'') []) ''Grid_Current'' rowIndex;
          gridFreqValidation = validateFrequency B (orElse (column r ''Hz_1'') []) ''Grid_Frequency'' rowIndex;
          errors = errors @ concat (map (\<lambda>validation. optList (snd validation))
            [gridVoltageValidation, gridCurrentValidation, gridFreqValidation]);
          grid = \<lparr>GridData.voltage = fst gridVoltageValidation,
            GridData.current = fst gridCurrentValidation,
            GridData.frequency = fst gridFreqValidation\<rparr>;
          hexValidation = validateHex (orElse (column r ''Hex'') []) ''Status_Hex'' rowIndex;
          errors = errors @ optList (snd hexValidation);
          status = \<lparr>hex = fst hexValidation\<rparr>
      in if id' userRecord = [] \<and> date (timestamp userRecord) = [] then
           (None, errors @ [incompleteRecord rowIndex])
         else
           (Some \<lparr>userRecord = userRecord, inverterSupply = inverterSupply, pv = pv,
              battery = battery, inverter = inverter, grid = grid, status = status\<rparr>,
            errors))"

text \<open>
  What \<open>Papa.parse\<close> reports to its callbacks: \<open>complete\<close> with the rows and the
  tokenizer's errors (each with an optional row), or \<open>error\<close> with a message. The
  tokenizer is a library outside the repository and is a parameter of \<open>parseCSV\<close>; it is
  given the configuration's header transform.
\<close>

record PapaError =
  papaRow :: "nat option"
  papaMessage :: string

datatype PapaOutcome = Complete "RawCSVRow list" "PapaError list" | Failed string

text \<open>The \<open>forEach\<close> over \<open>results.data\<close>: the state is \<open>(records, allErrors)\<close>.\<close>

fun forEachRow ::
  "builtins \<Rightarrow> RawCSVRow list \<Rightarrow> nat \<Rightarrow> InverterRecord list \<times> ParseError list
     \<Rightarrow> InverterRecord list \<times> ParseError list" where
  "forEachRow B [] index st = st"
| "forEachRow B (r # rs) index (records, allErrors) =
     (let rowIndex = index + 2;
          parseResult = parseRow B r rowIndex;
          records = (case fst parseResult of Some newRecord \<Rightarrow> records @ [newRecord] | None \<Rightarrow> records)
      in forEachRow B rs (index + 1) (records, allErrors @ snd parseResult))"

text \<open>\<open>error.row ? error.row + 1 : 0\<close>: an absent row and row 0 are both falsy.\<close>

definition papaErrorToParseError :: "PapaError \<Rightarrow> ParseError" where
  "papaErrorToParseError error =
     \<lparr>row = (case papaRow error of None \<Rightarrow> 0 | Some n \<Rightarrow> if n = 0 then 0 else n + 1),
      field = ''parsing'', val = [], message = papaMessage error, type = Format\<rparr>"

definition parseCSV ::
  "builtins \<Rightarrow> ((string \<Rightarrow> string) \<Rightarrow> string \<Rightarrow> PapaOutcome) \<Rightarrow> string \<Rightarrow> ParseResult" where
  "parseCSV B papaParse csvContent =
     (case papaParse transformHeader csvContent of
        Complete rows papaErrors \<Rightarrow>
          (let totalRows = length rows;
               st = forEachRow B rows 0 ([], []);
               records = fst st;
               allErrors = snd st @ map papaErrorToParseError papaErrors
           in \<lparr>data = records, errors = allErrors, totalRows = totalRows,
                successfulRows = length records\<rparr>)
      | Failed msg \<Rightarrow>
          \<lparr>data = [],
           errors = [\<lparr>row = 0, field = ''file'', val = [], message = msg, type = Format\<rparr>],
           totalRows = 0, successfulRows = 0\<rparr>)"

section \<open>The error formatter\<close>

text \<open>
  \<open>errorsByType\<close> is an object keyed by the type name; its entries come in insertion
  order, so it is an association list that a new key extends at the end.
\<close>

definition groupPush :: "('k \<times> 'a list) list \<Rightarrow> 'k \<Rightarrow> 'a \<Rightarrow> ('k \<times> 'a list) list" where
  "groupPush acc k x =
     AList.update k ((case map_of acc k of None \<Rightarrow> [] | Some xs \<Rightarrow> xs) @ [x]) acc"

definition errorLine :: "ParseError \<Rightarrow> string" where
  "errorLine error =
     ''  Row '' @ showNat (row error) @ '', '' @ field error @ '': '' @ message error @ [CHR 0x0A]"

definition typeBlock :: "error_type \<times> ParseError list \<Rightarrow> string" where
  "typeBlock entry =
     (case entry of (t, typeErrors) \<Rightarrow>
        [CHR 0x0A] @ toUpperCase (typeName t) @ '' errors ('' @ showNat (length typeErrors)
          @ ''):'' @ [CHR 0x0A]
        @ concat (map errorLine (take 5 typeErrors))
        @ (if 5 < length typeErrors
           then ''  ... and '' @ showNat (length typeErrors - 5) @ '' more'' @ [CHR 0x0A]
           else []))"

definition formatParseErrors :: "ParseError list \<Rightarrow> string" where
  "formatParseErrors errs =
     (if length errs = 0 then ''No errors''
      else let errorsByType = foldl (\<lambda>acc error. groupPush acc (type error) error) [] errs;
               message = ''Found '' @ showNat (length errs) @ '' error(s):'' @ [CHR 0x0A]
           in foldl (\<lambda>message entry. message @ typeBlock entry) message errorsByType)"

section \<open>The aggregation engine (transformations.ts)\<close>

datatype interval = Minute | Hour | Day | Month

datatype aggMethod = Average | Sum | Min | Max

text \<open>
  \<open>fieldsOpt\<close> is the optional property \<open>fields\<close>, \<open>None\<close> when it is omitted; \<open>method'\<close>
  and \<open>values'\<close> are the properties \<open>method\<close> and \<open>values\<close>. \<open>values'\<close> is an object
  written key by key, kept as the list of its entries in insertion order.
\<close>

record AggregationOptions =
  interval :: interval
  fieldsOpt :: "string list option"
  method' :: aggMethod

record AggregatedData =
  period :: string
  values' :: "(string \<times> jsnum) list"
  count :: nat

text \<open>
  \<open>extractFieldValues\<close> walks a record as a plain object, so the record is also given
  as a JavaScript value: an object is the list of its own properties. Only own properties
  are looked up; the inherited ones of \<open>Object.prototype\<close> are functions, which the walk
  turns into 0 exactly as it does for a name that is not found.
\<close>

datatype jsval =
  JUndefined | JNull | JBool bool | JNum jsnum | JStr string | JObj "(string \<times> jsval) list"

definition recordToJs :: "InverterRecord \<Rightarrow> jsval" where
  "recordToJs r =
     JObj [
       (''userRecord'', JObj [
          (''id'', JStr (id' (userRecord r))),
          (''name'', JStr (name (userRecord r))),
          (''timestamp'', JObj [
             (''date'', JStr (date (timestamp (userRecord r)))),
             (''time'', JStr (time (timestamp (userRecord r)))),
             (''datetime'', (case datetime (timestamp (userRecord r)) of
                               None \<Rightarrow> JUndefined | Some d \<Rightarrow> JStr d))]),
          (''blackout'', (case blackout (userRecord r) of None \<Rightarrow> JNull | Some b \<Rightarrow> JBool b))]),
       (''inverterSupply'', JObj [
          (''totalKWh'', JNum (InverterSupply.totalKWh (inverterSupply r)))]),
       (''pv'', JObj [
          (''voltage'', JNum (PVData.voltage (pv r))),
          (''current'', JNum (PVData.current (pv r))),
          (''powerW'', JNum (powerW (pv r))),
          (''dailyWh'', JNum (dailyWh (pv r))),
          (''monthlyWd'', JNum (monthlyWd (pv r))),
          (''yearlyWm'', JNum (yearlyWm (pv r))),
          (''totalKWh'', JNum (PVData.totalKWh (pv r)))]),
       (''battery'', JObj [
          (''voltage'', JNum (BatteryData.voltage (battery r))),
          (''current'', JNum (BatteryData.current (battery r))),
          (''temperature'', JNum (temperature (battery r))),
          (''soc'', JNum (soc (battery r)))]),
       (''inverter'', JObj [
          (''voltage'', JNum (InverterData.voltage (inverter r))),
          (''current'', JNum (InverterData.current (inverter r))),
          (''frequency'', JNum (InverterData.frequency (inverter r)))]),
       (''grid'', JObj [
          (''voltage'', JNum (GridData.voltage (grid r))),
          (''current'', JNum (GridData.current (grid r))),
          (''frequency'', JNum (GridData.frequency (grid r)))]),
       (''status'', JObj [(''hex'', JStr (hex (status r)))])]"

text \<open>\<open>fieldPath.split('.')\<close>.\<close>

fun splitDot :: "string \<Rightarrow> string list" where
  "splitDot [] = [[]]"
| "splitDot (c # cs) =
     (if c = CHR ''.'' then [] # splitDot cs
      else (case splitDot cs of [] \<Rightarrow> [[c]] | p # ps \<Rightarrow> (c # p) # ps))"

text \<open>
  The \<open>else\<close> branch of the loop body ("direct field access for backward compatibility"):
  \<open>Some v\<close> is \<open>value = v; break\<close>, \<open>None\<close> is the callback's \<open>return 0\<close>.
\<close>

definition directAccess :: "InverterRecord \<Rightarrow> string \<Rightarrow> jsval option" where
  "directAccess r fieldPath =
     (if fieldPath = ''powerW'' then Some (JNum (powerW (pv r)))
      else if fieldPath = ''voltage'' then Some (JNum (BatteryData.voltage (battery r)))
      else if fieldPath = ''soc'' then Some (JNum (soc (battery r)))
      else None)"

text \<open>The \<open>for (const part of parts)\<close> loop; \<open>None\<close> is again the early \<open>return 0\<close>.\<close>

fun walk :: "InverterRecord \<Rightarrow> string \<Rightarrow> jsval \<Rightarrow> string list \<Rightarrow> jsval option" where
  "walk r fieldPath v [] = Some v"
| "walk r fieldPath v (part # parts) =
     (case v of
        JObj props \<Rightarrow>
          (case map_of props part of
             Some w \<Rightarrow> walk r fieldPath w parts
           | None \<Rightarrow> directAccess r fieldPath)
      | _ \<Rightarrow> directAccess r fieldPath)"

text \<open>The callback of \<open>records.map\<close> in \<open>extractFieldValues\<close>.\<close>

definition extractOne :: "InverterRecord \<Rightarrow> string \<Rightarrow> jsnum" where
  "extractOne r fieldPath =
     (case walk r fieldPath (recordToJs r) (splitDot fieldPath) of
        None \<Rightarrow> Fin 0
      | Some (JNum n) \<Rightarrow> n
      | Some _ \<Rightarrow> Fin 0)"

definition extractFieldValues :: "InverterRecord list \<Rightarrow> string \<Rightarrow> jsnum list" where
  "extractFieldValues records fieldPath =
     filter (\<lambda>v. \<not> isNaN v) (map (\<lambda>r. extractOne r fieldPath) records)"

definition calculateAggregation :: "jsnum list \<Rightarrow> aggMethod \<Rightarrow> jsnum" where
  "calculateAggregation vs m =
     (if length vs = 0 then Fin 0
      else (case m of
              Sum \<Rightarrow> foldl jadd (Fin 0) vs
            | Average \<Rightarrow> jdivLength (foldl jadd (Fin 0) vs) (length vs)
            | Min \<Rightarrow> foldl jmin PosInf vs
            | Max \<Rightarrow> foldl jmax NegInf vs))"

text \<open>\<open>String(x).padStart(2, '0')\<close>.\<close>

definition padStart2 :: "string \<Rightarrow> string" where
  "padStart2 s = replicate (2 - length s) (CHR ''0'') @ s"

text \<open>The bucket key of \<open>groupByTimeInterval\<close> for the instant \<open>new Date(dt)\<close>.\<close>

definition periodKey :: "builtins \<Rightarrow> interval \<Rightarrow> string \<Rightarrow> string" where
  "periodKey B iv dt =
     (let parts =
            (case localFields B dt of
               None \<Rightarrow> [''NaN'', ''NaN'', ''NaN'', ''NaN'', ''NaN'']
             | Some (y, mo, d, h, mi) \<Rightarrow>
                 [showInt y, padStart2 (showInt (mo + 1)), padStart2 (showInt d),
                  padStart2 (showInt h), padStart2 (showInt mi)]);
          ymd = parts ! 0 @ ''-'' @ parts ! 1 @ ''-'' @ parts ! 2
      in (case iv of
            Minute \<Rightarrow> ymd @ '' '' @ parts ! 3 @ '':'' @ parts ! 4
          | Hour \<Rightarrow> ymd @ '' '' @ parts ! 3 @ '':00''
          | Day \<Rightarrow> ymd
          | Month \<Rightarrow> parts ! 0 @ ''-'' @ parts ! 1))"

text \<open>
  One turn of the \<open>forEach\<close> in \<open>groupByTimeInterval\<close>: a record whose \<open>datetime\<close> is
  absent or empty is skipped. \<open>groups\<close> is an object read in insertion order.
\<close>

definition groupStep ::
  "builtins \<Rightarrow> interval \<Rightarrow> (string \<times> InverterRecord list) list \<Rightarrow> InverterRecord
     \<Rightarrow> (string \<times> InverterRecord list) list" where
  "groupStep B iv groups r =
     (case datetime (timestamp (userRecord r)) of
        None \<Rightarrow> groups
      | Some dt \<Rightarrow> if dt = [] then groups else groupPush groups (periodKey B iv dt) r)"

definition groupByTimeInterval ::
  "builtins \<Rightarrow> InverterRecord list \<Rightarrow> interval \<Rightarrow> (string \<times> InverterRecord list) list" where
  "groupByTimeInterval B records iv = foldl (groupStep B iv) [] records"

text \<open>The literal array that stands in for an omitted \<open>options.fields\<close>.\<close>

definition defaultFields :: "string list" where
  "defaultFields = [''powerW'', ''voltage'', ''soc'', ''voltage'', ''voltage'']"

text \<open>
  \<open>values[field] = x\<close> is \<open>AList.update\<close>: a new key goes to the end, a key already
  written keeps its place. This is the object for the field names of the data model and
  their dotted paths. Two strings behave otherwise in an object and are outside the
  statements below: the key \<open>__proto__\<close>, which creates no property, and keys that are
  array indices, which an object lists first.
\<close>

definition aggregateGroup ::
  "AggregationOptions \<Rightarrow> string \<times> InverterRecord list \<Rightarrow> AggregatedData" where
  "aggregateGroup options entry =
     (case entry of (p, groupRecords) \<Rightarrow>
        (let fieldsToAggregate = (case fieldsOpt options of Some fs \<Rightarrow> fs | None \<Rightarrow> defaultFields)
         in \<lparr>period = p,
             values' = foldl (\<lambda>vals f. AList.update f
                         (calculateAggregation (extractFieldValues groupRecords f) (method' options))
                         vals) [] fieldsToAggregate,
             count = length groupRecords\<rparr>))"

definition aggregateData ::
  "builtins \<Rightarrow> InverterRecord list \<Rightarrow> AggregationOptions \<Rightarrow> AggregatedData list" where
  "aggregateData B records options =
     (if length records = 0 then []
      else map (aggregateGroup options) (groupByTimeInterval B records (interval options)))"


section \<open>An instance of the built-ins and sample data\<close>

text \<open>
  One host to evaluate the pipeline on concrete inputs: \<open>Number\<close> on decimal literals
  (optional sign, digits, optional fraction, \<open>Infinity\<close>) with their exact values, dates
  read in the UTC time zone and in the ISO shape only. It is used for the concrete
  evaluations below and for nothing else: the general theorems hold for every host.
\<close>

fun digitValue :: "char \<Rightarrow> nat" where
  "digitValue c = (case map_of (zip ''0123456789'' [0, 1, 2, 3, 4, 5, 6, 7, 8, 9]) c of
                     Some d \<Rightarrow> d | None \<Rightarrow> 0)"

definition digitsValue :: "string \<Rightarrow> nat" where
  "digitsValue ds = foldl (\<lambda>acc c. acc * 10 + digitValue c) 0 ds"

definition unsignedDecimal :: "string \<Rightarrow> jsnum" where
  "unsignedDecimal s =
     (let ip = takeWhile isDigit s; rest = dropWhile isDigit s
      in if s = ''Infinity'' then PosInf
         else (case rest of
                 [] \<Rightarrow> if ip = [] then NaN else Fin (real (digitsValue ip))
               | c # fp \<Rightarrow>
                   if c = CHR ''.'' \<and> list_all isDigit fp \<and> \<not> (ip = [] \<and> fp = [])
                   then Fin (real (digitsValue ip) + real (digitsValue fp) / 10 ^ length fp)
                   else NaN))"

fun jneg :: "jsnum \<Rightarrow> jsnum" where
  "jneg NaN = NaN"
| "jneg NegInf = PosInf"
| "jneg (Fin a) = Fin (- a)"
| "jneg PosInf = NegInf"

definition decimalNumber :: "string \<Rightarrow> jsnum" where
  "decimalNumber v =
     (case trim v of
        [] \<Rightarrow> Fin 0
      | c # cs \<Rightarrow>
          if c = CHR ''-'' then jneg (unsignedDecimal cs)
          else if c = CHR ''+'' then unsignedDecimal cs
          else unsignedDecimal (c # cs))"

fun fracDigits :: "nat \<Rightarrow> real \<Rightarrow> string" where
  "fracDigits 0 x = []"
| "fracDigits (Suc n) x =
     (if x = 0 then []
      else digitChar (nat \<lfloor>x * 10\<rfloor>) # fracDigits n (x * 10 - real_of_int \<lfloor>x * 10\<rfloor>))"

definition showNumber :: "jsnum \<Rightarrow> string" where
  "showNumber x =
     (case x of
        NaN \<Rightarrow> ''NaN''
      | PosInf \<Rightarrow> ''Infinity''
      | NegInf \<Rightarrow> ''-Infinity''
      | Fin a \<Rightarrow>
          (if a < 0 then ''-'' else []) @ showNat (nat \<lfloor>\<bar>a\<bar>\<rfloor>)
          @ (if \<bar>a\<bar> = real_of_int \<lfloor>\<bar>a\<bar>\<rfloor> then []
             else ''.'' @ fracDigits 17 (\<bar>a\<bar> - real_of_int \<lfloor>\<bar>a\<bar>\<rfloor>)))"

definition isoDateValid :: "string \<Rightarrow> bool" where
  "isoDateValid s =
     (dateRegex s
      \<and> 1 \<le> digitsValue (take 2 (drop 5 s)) \<and> digitsValue (take 2 (drop 5 s)) \<le> 12
      \<and> 1 \<le> digitsValue (take 2 (drop 8 s)) \<and> digitsValue (take 2 (drop 8 s)) \<le> 31)"

text \<open>A local date-time \<open>YYYY-MM-DDTHH:MM:00\<close>, printed back in UTC.\<close>

definition isoToISOString :: "string \<Rightarrow> string option" where
  "isoToISOString s =
     (if isoDateValid (take 10 s) \<and> take 1 (drop 10 s) = ''T''
         \<and> length (take 5 (drop 11 s)) = 5 \<and> timeRegex (take 5 (drop 11 s))
         \<and> drop 16 s = '':00''
      then Some (s @ ''.000Z'') else None)"

definition isoLocalFields :: "string \<Rightarrow> (int \<times> int \<times> int \<times> int \<times> int) option" where
  "isoLocalFields s =
     (if isoToISOString (take 19 s) = None \<or> drop 19 s \<noteq> ''.000Z'' then None
      else Some (int (digitsValue (take 4 s)),
                 int (digitsValue (take 2 (drop 5 s))) - 1,
                 int (digitsValue (take 2 (drop 8 s))),
                 int (digitsValue (take 2 (drop 11 s))),
                 int (digitsValue (take 2 (drop 14 s)))))"

definition sampleBuiltins :: builtins where
  "sampleBuiltins =
     \<lparr>Number = decimalNumber, numberToString = showNumber, dateIsValid = isoDateValid,
      toISOString = isoToISOString, localFields = isoLocalFields\<rparr>"

text \<open>
  The two data rows of the sample file of the parser's test page, under the column
  names that \<open>parseRow\<close> reads; the second row has a time but neither id nor date.
\<close>

definition sampleRow :: RawCSVRow where
  "sampleRow = map_of [
     (''ID'', ''HINV-80F3DA61D0''), (''Date'', ''2025-09-28''), (''Time'', ''21:05''),
     (''Name'', ''TwinklePower''), (''Blackout'', ''-''), (''InvSupply_TotalKWh'', ''1.85''),
     (''PV_Voltage'', ''0''), (''PV_Current'', ''0''), (''PV_PowerW'', ''0''),
     (''PV_DailyWh'', ''0''), (''PV_MonthlyWd'', ''774.77''), (''PV_YearlyWm'', ''387.38''),
     (''PV_TotalKWh'', ''2.32''), (''Voltage_1'', ''25.9''), (''Current_1'', ''0''),
     (''Temp'', ''27''), (''SOC'', ''98''), (''Voltage_2'', ''208.35''), (''Current_2'', ''0''),
     (''Hz'', ''60''), (''Voltage_3'', ''206.63''), (''Current_3'', ''0''), (''Hz_1'', ''60''),
     (''Hex'', ''0x03'')]"

definition sampleRowNoId :: RawCSVRow where
  "sampleRowNoId = map_of [
     (''ID'', []), (''Date'', []), (''Time'', ''21:06''), (''Name'', []),
     (''Blackout'', ''-''), (''InvSupply_TotalKWh'', []),
     (''PV_Voltage'', ''0''), (''PV_Current'', ''0''), (''PV_PowerW'', ''0''),
     (''PV_DailyWh'', []), (''PV_MonthlyWd'', []), (''PV_YearlyWm'', []),
     (''PV_TotalKWh'', []), (''Voltage_1'', ''25.9''), (''Current_1'', ''0''),
     (''Temp'', ''27''), (''SOC'', ''98''), (''Voltage_2'', ''208.09''), (''Current_2'', ''0''),
     (''Hz'', ''60''), (''Voltage_3'', ''206.63''), (''Current_3'', ''0''), (''Hz_1'', ''60''),
     (''Hex'', ''0x03'')]"

text \<open>The record of the first sample row.\<close>

definition sampleRecord :: InverterRecord where
  "sampleRecord =
     \<lparr>userRecord = \<lparr>id' = ''HINV-80F3DA61D0'', name = ''TwinklePower'',
        timestamp = \<lparr>date = ''2025-09-28'', time = ''21:05'',
          datetime = Some ''2025-09-28T21:05:00.000Z''\<rparr>,
        blackout = None\<rparr>,
      inverterSupply = \<lparr>InverterSupply.totalKWh = Fin 1.85\<rparr>,
      pv = \<lparr>PVData.voltage = Fin 0, PVData.current = Fin 0, powerW = Fin 0, dailyWh = Fin 0,
        monthlyWd = Fin 774.77, yearlyWm = Fin 387.38, PVData.totalKWh = Fin 2.32\<rparr>,
      battery = \<lparr>BatteryData.voltage = Fin 25.9, BatteryData.current = Fin 0,
        temperature = Fin 27, soc = Fin 98\<rparr>,
      inverter = \<lparr>InverterData.voltage = Fin 208.35, InverterData.current = Fin 0,
        InverterData.frequency = Fin 60\<rparr>,
      grid = \<lparr>GridData.voltage = Fin 206.63, GridData.current = Fin 0,
        GridData.frequency = Fin 60\<rparr>,
      status = \<lparr>hex = ''0x03''\<rparr>\<rparr>"

text \<open>The header line of the logger's files: the same names repeat from section to section.\<close>

definition legacyHeader :: "string list" where
  "legacyHeader =
     [''ID'', ''Date'', ''Time'', ''Name'', ''Blackout'', ''Total kWh'',
      ''Voltage'', ''Current'', ''Power W'', ''Daily Wh'', ''Monthly Wd'', ''Yearly Wm'', ''Total kWh'',
      ''Voltage'', ''Current'', ''Temp'', ''SOC'',
      ''Voltage'', ''Current'', ''Hz'',
      ''Voltage'', ''Current'', ''Hz'', ''Hex'']"

section \<open>Notions the statements use\<close>

text \<open>The device id and the resolved date that the acceptance test of \<open>parseRow\<close> reads.\<close>

definition rowId :: "RawCSVRow \<Rightarrow> string" where
  "rowId r = orElse (column r ''ID'') []"

definition resolvedDate :: "builtins \<Rightarrow> RawCSVRow \<Rightarrow> nat \<Rightarrow> string" where
  "resolvedDate B r rowIndex =
     date (fst (createTimestamp B (orElse (column r ''Date'') []) (orElse (column r ''Time'') [])
       rowIndex))"

text \<open>
  The field-level errors of a row: what the validators have pushed, in the order of the
  calls, when \<open>parseRow\<close> reaches its acceptance test.
\<close>

definition fieldLevelErrors :: "builtins \<Rightarrow> RawCSVRow \<Rightarrow> nat \<Rightarrow> ParseError list" where
  "fieldLevelErrors B r rowIndex =
     snd (createTimestamp B (orElse (column r ''Date'') []) (orElse (column r ''Time'') []) rowIndex)
     @ optList (snd (validateBlackout (orElse (column r ''Blackout'') []) ''Blackout'' rowIndex))
     @ optList (snd (validateEnergy B
         (orElse (orElse (column r ''InvSupply_TotalKWh'') (column r ''Total kWh'')) [])
         ''InvSupply_TotalKWh'' rowIndex))
     @ optList (snd (validateVoltage B
         (orElse (orElse (column r ''PV_Voltage'') (column r ''Voltage'')) []) ''PV_Voltage'' rowIndex))
     @ optList (snd (validateCurrent B
         (orElse (orElse (column r ''PV_Current'') (column r ''Current'')) []) ''PV_Current'' rowIndex))
     @ optList (snd (validatePower B
         (orElse (orElse (column r ''PV_PowerW'') (column r ''Power W'')) []) ''PV_PowerW'' rowIndex))
     @ optList (snd (validateEnergy B
         (orElse (orElse (column r ''PV_DailyWh'') (column r ''Daily Wh'')) []) ''PV_DailyWh'' rowIndex))
     @ optList (snd (validateEnergy B
         (orElse (orElse (column r ''PV_MonthlyWd'') (column r ''Monthly Wd'')) []) ''PV_MonthlyWd'' rowIndex))
     @ optList (snd (validateEnergy B
         (orElse (orElse (column r ''PV_YearlyWm'') (column r ''Yearly Wm'')) []) ''PV_YearlyWm'' rowIndex))
     @ optList (snd (validateEnergy B
         (orElse (orElse (column r ''PV_TotalKWh'') (column r ''Total kWh'')) []) ''PV_TotalKWh'' rowIndex))
     @ optList (snd (validateVoltage B (orElse (column r ''Voltage_1'') []) ''Battery_Voltage'' rowIndex))
     @ optList (snd (validateCurrent B (orElse (column r ''Current_1'') []) ''Battery_Current'' rowIndex))
     @ optList (snd (validateTemperature B (orElse (column r ''Temp'') []) ''Battery_Temp'' rowIndex))
     @ optList (snd (validateSOC B (orElse (column r ''SOC'') []) ''Battery_SOC'' rowIndex))
     @ optList (snd (validateVoltage B (orElse (column r ''Voltage_2'') []) ''Inverter_Voltage'' rowIndex))
     @ optList (snd (validateCurrent B (orElse (column r ''Current_2'') []) ''Inverter_Current'' rowIndex))
     @ optList (snd (validateFrequency B (orElse (column r ''Hz'') []) ''Inverter_Frequency'' rowIndex))
     @ optList (snd (validateVoltage B (orElse (column r ''Voltage_3'') []) ''Grid_Voltage'' rowIndex))
     @ optList (snd (validateCurrent B (orElse (column r ''Current_3'') []) ''Grid_Current'' rowIndex))
     @ optList (snd (validateFrequency B (orElse (column r ''Hz_1'') []) ''Grid_Frequency'' rowIndex))
     @ optList (snd (validateHex (orElse (column r ''Hex'') []) ''Status_Hex'' rowIndex))"


text \<open>Seven errors of one type, for the formatter.\<close>

definition sevenErrors :: "ParseError list" where
  "sevenErrors =
     [incompleteRecord 2, incompleteRecord 3, incompleteRecord 4, incompleteRecord 5,
      incompleteRecord 6, incompleteRecord 7, incompleteRecord 8]"

section \<open>Lemmas on the row assembler\<close>

lemmas validator_defs = validateVoltage_def validateCurrent_def validatePower_def
  validateEnergy_def validateTemperature_def validateSOC_def validateFrequency_def

lemmas range_defs = voltage_min_def voltage_max_def current_min_def current_max_def
  power_min_def power_max_def energy_min_def energy_max_def temperature_min_def
  temperature_max_def soc_min_def soc_max_def frequency_min_def frequency_max_def

lemma parseRow_errors:
  "snd (parseRow B r i) =
     fieldLevelErrors B r i
     @ (if rowId r = [] \<and> resolvedDate B r i = [] then [incompleteRecord i] else [])"
  by (simp add: parseRow_def Let_def fieldLevelErrors_def rowId_def resolvedDate_def)

lemma parseRow_record:
  "(fst (parseRow B r i) = None) = (rowId r = [] \<and> resolvedDate B r i = [])"
  by (simp add: parseRow_def Let_def rowId_def resolvedDate_def)

lemma validateDate_value_empty: "(fst (validateDate B v f i) = []) = (v = [])"
  by (simp add: validateDate_def)

text \<open>The resolved date is empty exactly when the row's date column is empty or absent.\<close>

lemma resolvedDate_empty: "(resolvedDate B r i = []) = (column r ''Date'' = [])"
  by (simp add: resolvedDate_def createTimestamp_def Let_def validateDate_value_empty orElse_def)

lemma validateDate_missing:
  "snd (validateDate B [] f i) =
     Some \<lparr>row = i, field = f, val = [], message = ''Date is required'', type = Missing\<rparr>"
  by (simp add: validateDate_def)

text \<open>A row without a date always carries the \<open>missing\<close> error of its date, first in the list.\<close>

lemma fieldLevelErrors_no_date:
  "resolvedDate B r i = [] \<Longrightarrow>
     hd (fieldLevelErrors B r i) =
       \<lparr>row = i, field = ''Date'', val = [], message = ''Date is required'', type = Missing\<rparr>
     \<and> fieldLevelErrors B r i \<noteq> []"
  by (simp add: resolvedDate_empty fieldLevelErrors_def createTimestamp_def Let_def orElse_def
      validateDate_missing)

lemma validateNumber_field:
  "e \<in> set (optList (snd (validateNumber B v f mn mx i))) \<Longrightarrow> field e = f"
  by (auto simp add: validateNumber_def Let_def split: if_splits)

lemma validateHex_field: "e \<in> set (optList (snd (validateHex v f i))) \<Longrightarrow> field e = f"
  by (auto simp add: validateHex_def split: if_splits)

lemma validateBlackout_field: "e \<in> set (optList (snd (validateBlackout v f i))) \<Longrightarrow> field e = f"
  by (auto simp add: validateBlackout_def Let_def split: if_splits)

lemma validateDate_field: "e \<in> set (optList (snd (validateDate B v f i))) \<Longrightarrow> field e = f"
  by (auto simp add: validateDate_def split: if_splits)

lemma validateTime_field: "e \<in> set (optList (snd (validateTime v f i))) \<Longrightarrow> field e = f"
  by (auto simp add: validateTime_def split: if_splits)

lemma createTimestamp_field:
  "e \<in> set (snd (createTimestamp B d t i)) \<Longrightarrow> field e \<in> {''Date'', ''Time'', ''datetime''}"
  by (auto simp add: createTimestamp_def Let_def split: if_splits option.splits
      dest: validateDate_field validateTime_field)

lemma fieldLevelErrors_field:
  assumes "e \<in> set (fieldLevelErrors B r i)"
  shows "field e \<noteq> ''record''"
proof -
  from assms have "field e \<in> {''Date'', ''Time'', ''datetime'', ''Blackout'', ''InvSupply_TotalKWh'',
      ''PV_Voltage'', ''PV_Current'', ''PV_PowerW'', ''PV_DailyWh'', ''PV_MonthlyWd'', ''PV_YearlyWm'',
      ''PV_TotalKWh'', ''Battery_Voltage'', ''Battery_Current'', ''Battery_Temp'', ''Battery_SOC'',
      ''Inverter_Voltage'', ''Inverter_Current'', ''Inverter_Frequency'', ''Grid_Voltage'',
      ''Grid_Current'', ''Grid_Frequency'', ''Status_Hex''}"
    unfolding fieldLevelErrors_def validator_defs set_append Un_iff
    by (elim disjE)
      (auto dest: createTimestamp_field validateNumber_field validateHex_field
        validateBlackout_field)
  then show ?thesis by auto
qed

lemma parseRow_hex:
  "fst (parseRow B r i) = Some rcd \<Longrightarrow>
     hex (status rcd) = fst (validateHex (orElse (column r ''Hex'') []) ''Status_Hex'' i)"
  by (auto simp add: parseRow_def Let_def split: if_splits)

lemma hex_error_reported:
  "set (optList (snd (validateHex (orElse (column r ''Hex'') []) ''Status_Hex'' i)))
     \<subseteq> set (snd (parseRow B r i))"
  by (auto simp add: parseRow_errors fieldLevelErrors_def)

lemma length_forEachRow:
  "length (fst (forEachRow B rs idx (recs, errs))) \<le> length recs + length rs"
proof (induction rs arbitrary: idx recs errs)
  case Nil
  then show ?case by simp
next
  case (Cons r rs)
  show ?case
  proof (cases "fst (parseRow B r (idx + 2))")
    case None
    then show ?thesis using Cons.IH [of "idx + 1" recs] by (simp add: Let_def le_Suc_eq)
  next
    case (Some a)
    then show ?thesis using Cons.IH [of "idx + 1" "recs @ [a]"] by (simp add: Let_def)
  qed
qed

section \<open>Lemmas on numbers and validation\<close>

lemma jle_not_NaN: "jle a b \<Longrightarrow> a \<noteq> NaN \<and> b \<noteq> NaN"
  by (cases a; cases b) simp_all

lemma in_range_iff:
  "jle mn mx \<Longrightarrow> x \<noteq> NaN \<Longrightarrow> (jlt x mn \<or> jlt mx x) = (\<not> (jle mn x \<and> jle x mx))"
  by (cases mn; cases mx; cases x) auto

lemma jadd_zero: "jadd (Fin 0) v = v"
  by (cases v) simp_all

lemma jdivLength_one: "jdivLength v (Suc 0) = v"
  by (cases v) simp_all

section \<open>Lemmas on the formatter\<close>

lemma group_same_type:
  "list_all (\<lambda>e. type e = t) es \<Longrightarrow>
     foldl (\<lambda>acc error. groupPush acc (type error) error) [(t, pre)] es = [(t, pre @ es)]"
  by (induction es arbitrary: pre) (simp_all add: groupPush_def)

lemma group_same_type_start:
  assumes "list_all (\<lambda>e. type e = t) es" and "es \<noteq> []"
  shows "foldl (\<lambda>acc error. groupPush acc (type error) error) [] es = [(t, es)]"
proof (cases es)
  case Nil
  then show ?thesis using assms by simp
next
  case (Cons e es')
  then show ?thesis
    using assms group_same_type [of t es' "[e]"] by (simp add: groupPush_def)
qed

section \<open>Lemmas on the aggregation engine\<close>


lemma calculateAggregation_single:
  "m = Sum \<or> m = Average \<Longrightarrow> calculateAggregation [v] m = v"
  by (auto simp add: calculateAggregation_def jadd_zero jdivLength_one)

lemma groupByTimeInterval_single:
  "datetime (timestamp (userRecord r)) = Some dt \<Longrightarrow> dt \<noteq> [] \<Longrightarrow>
     groupByTimeInterval B [r] iv = [(periodKey B iv dt, [r])]"
  by (simp add: groupByTimeInterval_def groupStep_def groupPush_def)

text \<open>
  With \<open>fields\<close> omitted, every bucket gets three keys: the three occurrences of
  \<open>voltage\<close> in the default list write the same key, and the walk resolves it to the
  battery voltage each time.
\<close>

lemma aggregateGroup_default:
  "aggregateGroup \<lparr>interval = iv, fieldsOpt = None, method' = m\<rparr> (p, g) =
     \<lparr>period = p,
      values' =
        [(''powerW'', calculateAggregation (extractFieldValues g ''powerW'') m),
         (''voltage'', calculateAggregation (extractFieldValues g ''voltage'') m),
         (''soc'', calculateAggregation (extractFieldValues g ''soc'') m)],
      count = length g\<rparr>"
  by (simp add: aggregateGroup_def defaultFields_def)

lemma extractOne_voltage: "extractOne r ''voltage'' = BatteryData.voltage (battery r)"
  by (simp add: extractOne_def recordToJs_def directAccess_def)

text \<open>No header is turned into \<open>PV_TotalKWh\<close> unless it already is that name.\<close>

lemma transformHeader_PV_TotalKWh:
  "(transformHeader h = ''PV_TotalKWh'') = (trim h = ''PV_TotalKWh'')"
  by (simp add: transformHeader_def Let_def)

section \<open>Evaluations on the sample data\<close>

lemmas number_eval = sampleBuiltins_def decimalNumber_def unsignedDecimal_def trim_def
  isSpace_def isDigit_def digitsValue_def

lemma sample_numbers:
  "Number sampleBuiltins ''1.85'' = Fin 1.85"
  "Number sampleBuiltins ''0'' = Fin 0"
  "Number sampleBuiltins ''774.77'' = Fin 774.77"
  "Number sampleBuiltins ''387.38'' = Fin 387.38"
  "Number sampleBuiltins ''2.32'' = Fin 2.32"
  "Number sampleBuiltins ''25.9'' = Fin 25.9"
  "Number sampleBuiltins ''27'' = Fin 27"
  "Number sampleBuiltins ''98'' = Fin 98"
  "Number sampleBuiltins ''208.35'' = Fin 208.35"
  "Number sampleBuiltins ''208.09'' = Fin 208.09"
  "Number sampleBuiltins ''60'' = Fin 60"
  "Number sampleBuiltins ''206.63'' = Fin 206.63"
  "Number sampleBuiltins ''150'' = Fin 150"
  "Number sampleBuiltins ''abc'' = NaN"
  by (simp_all add: number_eval)

lemma sample_number_strings:
  "numberToString sampleBuiltins (Fin 150) = ''150''"
  "numberToString sampleBuiltins (Fin 0) = ''0''"
  "numberToString sampleBuiltins (Fin 100) = ''100''"
  by (simp_all add: sampleBuiltins_def showNumber_def showNat.simps digitChar_def)

lemma sample_timestamp:
  "createTimestamp sampleBuiltins ''2025-09-28'' ''21:05'' 2 =
     (\<lparr>date = ''2025-09-28'', time = ''21:05'', datetime = Some ''2025-09-28T21:05:00.000Z''\<rparr>, [])"
  by (simp add: createTimestamp_def validateDate_def validateTime_def Let_def isDigit_def
      sampleBuiltins_def isoDateValid_def isoToISOString_def digitsValue_def)

lemma parseRow_sampleRow: "parseRow sampleBuiltins sampleRow 2 = (Some sampleRecord, [])"
  by (simp add: parseRow_def Let_def sampleRow_def column_def orElse_def sample_timestamp
      validateBlackout_def validator_defs range_defs validateNumber_def sample_numbers isNaN_def
      validateHex_def isHexDigit_def sampleRecord_def)

lemma fieldLevelErrors_sampleRowNoId:
  "fieldLevelErrors sampleBuiltins sampleRowNoId 3 =
     [\<lparr>row = 3, field = ''Date'', val = [], message = ''Date is required'', type = Missing\<rparr>]"
  by (simp add: fieldLevelErrors_def sampleRowNoId_def column_def orElse_def
      createTimestamp_def validateDate_def validateTime_def Let_def isDigit_def
      validateBlackout_def validator_defs range_defs validateNumber_def sample_numbers isNaN_def
      validateHex_def isHexDigit_def)

lemma sampleRow_id: "rowId sampleRow = ''HINV-80F3DA61D0''"
  by (simp add: rowId_def sampleRow_def column_def orElse_def)

lemma sampleRowNoId_id: "rowId sampleRowNoId = []"
  by (simp add: rowId_def sampleRowNoId_def column_def orElse_def)

lemma sampleRowNoId_date: "resolvedDate B sampleRowNoId i = []"
  by (simp add: resolvedDate_empty sampleRowNoId_def column_def)

lemma sample_datetime:
  "datetime (timestamp (userRecord sampleRecord)) = Some ''2025-09-28T21:05:00.000Z''"
  by (simp add: sampleRecord_def)


lemma sample_localFields:
  "localFields sampleBuiltins ''2025-09-28T21:05:00.000Z'' = Some (2025, 8, 28, 21, 5)"
  by (simp add: sampleBuiltins_def isoLocalFields_def isoToISOString_def isoDateValid_def
      isDigit_def digitsValue_def)

lemma sample_periodKey:
  "periodKey sampleBuiltins Minute ''2025-09-28T21:05:00.000Z'' = ''2025-09-28 21:05''"
  "periodKey sampleBuiltins Hour ''2025-09-28T21:05:00.000Z'' = ''2025-09-28 21:00''"
  "periodKey sampleBuiltins Day ''2025-09-28T21:05:00.000Z'' = ''2025-09-28''"
  "periodKey sampleBuiltins Month ''2025-09-28T21:05:00.000Z'' = ''2025-09''"
  by (simp_all add: periodKey_def sample_localFields showInt_def showNat.simps digitChar_def
      padStart2_def)

section \<open>The claims\<close>

text \<open>
  C1. A row handed to the row assembler yields exactly one record when its device id or
  its resolved date is non-empty, and no record, with at least one error, when both are
  empty.
\<close>

theorem parseRow_acceptance:
  "(rowId r \<noteq> [] \<or> resolvedDate B r i \<noteq> [] \<longrightarrow> (\<exists>rcd. fst (parseRow B r i) = Some rcd))
   \<and> (rowId r = [] \<and> resolvedDate B r i = [] \<longrightarrow>
        fst (parseRow B r i) = None \<and> snd (parseRow B r i) \<noteq> [])"
  using parseRow_record [of B r i] by (auto simp add: parseRow_errors)

text \<open>The two sample rows: the first is accepted, the second is dropped with errors.\<close>

theorem parseRow_acceptance_witness:
  "(\<exists>rcd. fst (parseRow sampleBuiltins sampleRow 2) = Some rcd)
   \<and> fst (parseRow sampleBuiltins sampleRowNoId 3) = None
   \<and> snd (parseRow sampleBuiltins sampleRowNoId 3) \<noteq> []"
proof -
  have "\<exists>rcd. fst (parseRow sampleBuiltins sampleRow 2) = Some rcd"
    using parseRow_acceptance [where r = sampleRow and B = sampleBuiltins and i = 2]
    by (simp add: sampleRow_id)
  moreover have "fst (parseRow sampleBuiltins sampleRowNoId 3) = None
      \<and> snd (parseRow sampleBuiltins sampleRowNoId 3) \<noteq> []"
    using parseRow_acceptance [where r = sampleRowNoId and B = sampleBuiltins and i = 3]
    by (simp add: sampleRowNoId_id sampleRowNoId_date)
  ultimately show ?thesis by simp
qed

text \<open>
  C2. For every input text, the result of \<open>parseCSV\<close> has \<open>successfulRows\<close> equal to the
  number of records in \<open>data\<close>, and at most \<open>totalRows\<close>. It holds whatever the tokenizer
  reports.
\<close>

theorem parseCSV_counts:
  "successfulRows (parseCSV B papaParse csv) = length (data (parseCSV B papaParse csv))
   \<and> successfulRows (parseCSV B papaParse csv) \<le> totalRows (parseCSV B papaParse csv)"
proof (cases "papaParse transformHeader csv")
  case (Complete rows papaErrors)
  then show ?thesis
    using length_forEachRow [of B rows 0 "[]" "[]"] by (simp add: parseCSV_def Let_def)
next
  case (Failed msg)
  then show ?thesis by (simp add: parseCSV_def)
qed

text \<open>
  C3. For bounds \<open>min <= max\<close>, \<open>validateNumber\<close> returns 0 and no error on the empty
  string and on \<open>-\<close>; 0 and a \<open>conversion\<close> error when \<open>Number\<close> gives \<open>NaN\<close>; the parsed
  number itself and a \<open>validation\<close> error when it lies outside the bounds; the parsed number
  and no error when it lies within them.
\<close>

theorem validateNumber_outcomes:
  assumes "jle mn mx"
  shows "validateNumber B [] f mn mx r = (Fin 0, None)
    \<and> validateNumber B ''-'' f mn mx r = (Fin 0, None)
    \<and> (v \<noteq> [] \<and> v \<noteq> ''-'' \<and> isNaN (Number B v) \<longrightarrow>
         validateNumber B v f mn mx r =
           (Fin 0, Some \<lparr>row = r, field = f, val = v,
              message = ''Invalid number format: '' @ [CHR 0x22] @ v @ [CHR 0x22],
              type = Conversion\<rparr>))
    \<and> (v \<noteq> [] \<and> v \<noteq> ''-'' \<and> \<not> isNaN (Number B v)
          \<and> \<not> (jle mn (Number B v) \<and> jle (Number B v) mx) \<longrightarrow>
         validateNumber B v f mn mx r =
           (Number B v, Some \<lparr>row = r, field = f, val = v,
              message = ''Value '' @ numberToString B (Number B v) @ '' is outside valid range [''
                @ numberToString B mn @ '', '' @ numberToString B mx @ '']'',
              type = Validation\<rparr>))
    \<and> (v \<noteq> [] \<and> v \<noteq> ''-'' \<and> jle mn (Number B v) \<and> jle (Number B v) mx \<longrightarrow>
         validateNumber B v f mn mx r = (Number B v, None))"
proof -
  have range: "Number B v \<noteq> NaN \<Longrightarrow>
      (jlt (Number B v) mn \<or> jlt mx (Number B v)) = (\<not> (jle mn (Number B v) \<and> jle (Number B v) mx))"
    using assms by (rule in_range_iff)
  have nan: "jle mn (Number B v) \<Longrightarrow> Number B v \<noteq> NaN"
    using jle_not_NaN by blast
  show ?thesis
    using range nan by (auto simp add: validateNumber_def Let_def isNaN_def)
qed

text \<open>The examples of the specification, with bounds 0 and 100.\<close>

theorem validateNumber_outcomes_witness:
  "validateNumber sampleBuiltins [] ''SOC'' (Fin 0) (Fin 100) 2 = (Fin 0, None)
   \<and> validateNumber sampleBuiltins ''-'' ''SOC'' (Fin 0) (Fin 100) 2 = (Fin 0, None)
   \<and> validateNumber sampleBuiltins ''abc'' ''SOC'' (Fin 0) (Fin 100) 2 =
       (Fin 0, Some \<lparr>row = 2, field = ''SOC'', val = ''abc'',
          message = ''Invalid number format: '' @ [CHR 0x22] @ ''abc'' @ [CHR 0x22],
          type = Conversion\<rparr>)
   \<and> validateNumber sampleBuiltins ''150'' ''SOC'' (Fin 0) (Fin 100) 2 =
       (Fin 150, Some \<lparr>row = 2, field = ''SOC'', val = ''150'',
          message = ''Value 150 is outside valid range [0, 100]'', type = Validation\<rparr>)
   \<and> validateNumber sampleBuiltins ''98'' ''SOC'' (Fin 0) (Fin 100) 2 = (Fin 98, None)"
proof -
  have bounds: "jle (Fin 0) (Fin 100)" by simp
  show ?thesis
    using validateNumber_outcomes [OF bounds, of sampleBuiltins "''SOC''" 2 "''abc''"]
      validateNumber_outcomes [OF bounds, of sampleBuiltins "''SOC''" 2 "''150''"]
      validateNumber_outcomes [OF bounds, of sampleBuiltins "''SOC''" 2 "''98''"]
    by (simp add: sample_numbers sample_number_strings isNaN_def)
qed

text \<open>
  C4. The claim is that the header transform sends the two \<open>Total kWh\<close> columns (inverter
  supply and PV) to two different canonical names. On the logger's header line the
  transform gives \<open>InvSupply_TotalKWh\<close> for both (positions 6 and 13), and one name each for
  the four \<open>Voltage\<close> and the four \<open>Current\<close> columns: the second \<open>Total kWh\<close> case of the
  \<open>switch\<close> is never reached.
\<close>

theorem transformHeader_legacy_header:
  "map transformHeader legacyHeader =
     [''ID'', ''Date'', ''Time'', ''Name'', ''Blackout'', ''InvSupply_TotalKWh'',
      ''PV_Voltage'', ''PV_Current'', ''PV_PowerW'', ''PV_DailyWh'', ''PV_MonthlyWd'',
      ''PV_YearlyWm'', ''InvSupply_TotalKWh'',
      ''PV_Voltage'', ''PV_Current'', ''Temp'', ''SOC'',
      ''PV_Voltage'', ''PV_Current'', ''Hz'',
      ''PV_Voltage'', ''PV_Current'', ''Hz'', ''Hex'']"
  by (simp add: legacyHeader_def transformHeader_def trim_def isSpace_def)

text \<open>
  C5. The claim is that, with \<open>fields\<close> omitted, each bucket maps five fields (PV power,
  battery voltage, battery SOC, inverter voltage, grid voltage) to their reduced values.
  On the sample record the bucket has three keys; \<open>voltage\<close> holds the battery voltage
  25.9, and the inverter voltage 208.35 and the grid voltage 206.63 appear nowhere.
\<close>

theorem aggregateData_default_fields:
  "aggregateData sampleBuiltins [sampleRecord]
       \<lparr>interval = Minute, fieldsOpt = None, method' = Average\<rparr> =
     [\<lparr>period = ''2025-09-28 21:05'',
       values' = [(''powerW'', Fin 0), (''voltage'', Fin 25.9), (''soc'', Fin 98)],
       count = 1\<rparr>]
   \<and> InverterData.voltage (inverter sampleRecord) = Fin 208.35
   \<and> GridData.voltage (grid sampleRecord) = Fin 206.63"
proof -
  have e: "extractFieldValues [sampleRecord] ''powerW'' = [Fin 0]"
      "extractFieldValues [sampleRecord] ''voltage'' = [Fin 25.9]"
      "extractFieldValues [sampleRecord] ''soc'' = [Fin 98]"
    by (simp_all add: extractFieldValues_def extractOne_def recordToJs_def directAccess_def
        isNaN_def sampleRecord_def)
  have "aggregateData sampleBuiltins [sampleRecord]
       \<lparr>interval = Minute, fieldsOpt = None, method' = Average\<rparr> =
     [\<lparr>period = ''2025-09-28 21:05'',
       values' = [(''powerW'', Fin 0), (''voltage'', Fin 25.9), (''soc'', Fin 98)],
       count = 1\<rparr>]"
    by (simp add: aggregateData_def aggregateGroup_default e calculateAggregation_single
        groupByTimeInterval_single [OF sample_datetime] sample_periodKey)
  moreover have "InverterData.voltage (inverter sampleRecord) = Fin 208.35
      \<and> GridData.voltage (grid sampleRecord) = Fin 206.63"
    by (simp add: sampleRecord_def)
  ultimately show ?thesis by simp
qed




text \<open>
  C7. \<open>formatParseErrors\<close> of the empty list is exactly \<open>No errors\<close>; of seven errors of one
  type it is the head line, the type's line, the lines of the first five errors (row,
  field: message) and then the line \<open>... and 2 more\<close>.
\<close>

theorem formatParseErrors_spec:
  "formatParseErrors [] = ''No errors''
   \<and> (length errs = 7 \<and> list_all (\<lambda>e. type e = t) errs \<longrightarrow>
        formatParseErrors errs =
          ''Found 7 error(s):\<newline>\<newline>'' @ toUpperCase (typeName t) @ '' errors (7):\<newline>''
          @ concat (map (\<lambda>e. ''  Row '' @ showNat (row e) @ '', '' @ field e @ '': '' @ message e
                            @ ''\<newline>'') (take 5 errs))
          @ ''  ... and 2 more\<newline>''
        \<and> length (take 5 errs) = 5)"
proof (intro conjI impI)
  show "formatParseErrors [] = ''No errors''"
    by (simp add: formatParseErrors_def)
next
  assume a: "length errs = 7 \<and> list_all (\<lambda>e. type e = t) errs"
  then have ne: "errs \<noteq> []" by auto
  have g: "foldl (\<lambda>acc error. groupPush acc (type error) error) [] errs = [(t, errs)]"
    using a ne by (simp add: group_same_type_start)
  have line: "errorLine = (\<lambda>e. ''  Row '' @ showNat (row e) @ '', '' @ field e @ '': '' @ message e
                            @ ''\<newline>'')"
    by (rule ext) (simp add: errorLine_def)
  show "formatParseErrors errs =
          ''Found 7 error(s):\<newline>\<newline>'' @ toUpperCase (typeName t) @ '' errors (7):\<newline>''
          @ concat (map (\<lambda>e. ''  Row '' @ showNat (row e) @ '', '' @ field e @ '': '' @ message e
                            @ ''\<newline>'') (take 5 errs))
          @ ''  ... and 2 more\<newline>''"
    using a by (simp add: formatParseErrors_def Let_def g typeBlock_def line showNat.simps
        digitChar_def)
  show "length (take 5 errs) = 5" using a by simp
qed

text \<open>Seven dropped rows, 2 to 8: rows 2 to 6 are listed.\<close>

theorem formatParseErrors_spec_witness:
  "formatParseErrors sevenErrors =
     ''Found 7 error(s):\<newline>\<newline>VALIDATION errors (7):\<newline>''
     @ ''  Row 2, record: Row missing required ID or date information\<newline>''
     @ ''  Row 3, record: Row missing required ID or date information\<newline>''
     @ ''  Row 4, record: Row missing required ID or date information\<newline>''
     @ ''  Row 5, record: Row missing required ID or date information\<newline>''
     @ ''  Row 6, record: Row missing required ID or date information\<newline>''
     @ ''  ... and 2 more\<newline>''"
proof -
  have h: "length sevenErrors = 7 \<and> list_all (\<lambda>e. type e = Validation) sevenErrors"
    by (simp add: sevenErrors_def incompleteRecord_def)
  show ?thesis
    using formatParseErrors_spec [where errs = sevenErrors and t = Validation] h
    by (simp add: sevenErrors_def incompleteRecord_def toUpperCase_def showNat.simps
        digitChar_def)
qed

text \<open>
  C8. When the row assembler drops a row (id and date both empty), its errors are the
  field-level errors of the row followed by exactly one more: field \<open>record\<close>, raw value
  \<open>incomplete\<close>, type \<open>validation\<close>. No field-level error has the field \<open>record\<close>.
\<close>

theorem parseRow_drop_reported:
  assumes "rowId r = []" and "resolvedDate B r i = []"
  shows "parseRow B r i =
      (None, fieldLevelErrors B r i @
         [\<lparr>row = i, field = ''record'', val = ''incomplete'',
           message = ''Row missing required ID or date information'', type = Validation\<rparr>])
    \<and> list_all (\<lambda>e. field e \<noteq> ''record'') (fieldLevelErrors B r i)"
proof -
  have "fst (parseRow B r i) = None"
    using assms by (simp add: parseRow_record)
  moreover have "snd (parseRow B r i) = fieldLevelErrors B r i @ [incompleteRecord i]"
    using assms by (simp add: parseRow_errors)
  ultimately have "parseRow B r i = (None, fieldLevelErrors B r i @ [incompleteRecord i])"
    by (simp add: prod_eq_iff)
  moreover have "list_all (\<lambda>e. field e \<noteq> ''record'') (fieldLevelErrors B r i)"
    using fieldLevelErrors_field by (simp add: list_all_iff)
  ultimately show ?thesis by (simp add: incompleteRecord_def)
qed

text \<open>The second sample row: the missing date, then the dropped record.\<close>

theorem parseRow_drop_reported_witness:
  "parseRow sampleBuiltins sampleRowNoId 3 =
     (None,
      [\<lparr>row = 3, field = ''Date'', val = [], message = ''Date is required'', type = Missing\<rparr>,
       \<lparr>row = 3, field = ''record'', val = ''incomplete'',
        message = ''Row missing required ID or date information'', type = Validation\<rparr>])"
  using parseRow_drop_reported [OF sampleRowNoId_id sampleRowNoId_date, of sampleBuiltins 3]
  by (simp add: fieldLevelErrors_sampleRowNoId)

text \<open>
  C9. For a non-empty string that does not match the pattern of a hex code,
  \<open>validateHex\<close> returns the string itself, not \<open>0x00\<close>, with a \<open>format\<close> error; a record
  assembled from a row with that string in its \<open>Hex\<close> column carries it as its status,
  and the row's errors contain the \<open>format\<close> error.
\<close>

theorem validateHex_keeps_invalid_text:
  assumes "v \<noteq> []" and "\<not> hexRegex v"
  shows "validateHex v f i =
      (v, Some \<lparr>row = i, field = f, val = v,
         message = ''Invalid hex format: '' @ [CHR 0x22] @ v @ [CHR 0x22], type = Format\<rparr>)
    \<and> (column r ''Hex'' = v \<and> fst (parseRow B r j) = Some rcd \<longrightarrow>
         hex (status rcd) = v
         \<and> \<lparr>row = j, field = ''Status_Hex'', val = v,
             message = ''Invalid hex format: '' @ [CHR 0x22] @ v @ [CHR 0x22], type = Format\<rparr>
           \<in> set (snd (parseRow B r j)))"
proof -
  have v: "\<And>g k. validateHex v g k =
      (v, Some \<lparr>row = k, field = g, val = v,
         message = ''Invalid hex format: '' @ [CHR 0x22] @ v @ [CHR 0x22], type = Format\<rparr>)"
    using assms by (simp add: validateHex_def)
  show ?thesis
  proof (intro conjI impI)
    show "validateHex v f i =
      (v, Some \<lparr>row = i, field = f, val = v,
         message = ''Invalid hex format: '' @ [CHR 0x22] @ v @ [CHR 0x22], type = Format\<rparr>)"
      by (rule v)
  next
    assume a: "column r ''Hex'' = v \<and> fst (parseRow B r j) = Some rcd"
    have o: "orElse v [] = v"
      by (simp add: orElse_def)
    show "hex (status rcd) = v"
      using a parseRow_hex [of B r j rcd] by (simp add: o v)
    show "\<lparr>row = j, field = ''Status_Hex'', val = v,
             message = ''Invalid hex format: '' @ [CHR 0x22] @ v @ [CHR 0x22], type = Format\<rparr>
           \<in> set (snd (parseRow B r j))"
      using a hex_error_reported [of r j B] by (simp add: o v)
  qed
qed

text \<open>The first sample row with \<open>03\<close> for its hex code: the status of its record is \<open>03\<close>.\<close>

theorem validateHex_keeps_invalid_text_witness:
  "validateHex ''03'' ''Status_Hex'' 2 =
     (''03'', Some \<lparr>row = 2, field = ''Status_Hex'', val = ''03'',
        message = ''Invalid hex format: '' @ [CHR 0x22] @ ''03'' @ [CHR 0x22], type = Format\<rparr>)
   \<and> (\<exists>rcd. fst (parseRow sampleBuiltins (sampleRow(''Hex'' \<mapsto> ''03'')) 2) = Some rcd
        \<and> hex (status rcd) = ''03'')"
proof -
  have ne: "''03'' \<noteq> []" and nh: "\<not> hexRegex ''03''"
    by simp_all
  have col: "column (sampleRow(''Hex'' \<mapsto> ''03'')) ''Hex'' = ''03''"
    by (simp add: column_def)
  have "rowId (sampleRow(''Hex'' \<mapsto> ''03'')) \<noteq> []"
    by (simp add: rowId_def sampleRow_def column_def orElse_def)
  then obtain rcd where rcd: "fst (parseRow sampleBuiltins (sampleRow(''Hex'' \<mapsto> ''03'')) 2) = Some rcd"
    using parseRow_record [of sampleBuiltins "sampleRow(''Hex'' \<mapsto> ''03'')" 2] by auto
  show ?thesis
    using validateHex_keeps_invalid_text [OF ne nh,
        where f = "''Status_Hex''" and i = 2 and r = "sampleRow(''Hex'' \<mapsto> ''03'')"
          and B = sampleBuiltins and j = 2 and rcd = rcd]
      col rcd
    by auto
qed

text \<open>
  C10. For the empty list of records \<open>aggregateData\<close> returns the empty list, whatever
  the options: no bucket is emitted.
\<close>

theorem aggregateData_empty: "aggregateData B [] options = []"
  by (simp add: aggregateData_def)

end
